theory Spec2Isabelle
  imports Complex_Main
begin

section \<open>Data model\<close>

text \<open>
  The popup keeps its persistent data in the host's key-value store
  (\<^verbatim>\<open>chrome.storage.local\<close>, keys token, user, theme, savedCreds, punchInTime, history)
  and its transient data in one module variable (\<^verbatim>\<open>timerInterval\<close>) and in the DOM.
  The repository holds three variants of the same script: \<^verbatim>\<open>src/popup.js\<close>,
  \<^verbatim>\<open>src/unnamed/part_000\<close> and \<^verbatim>\<open>src/unnamed/part_001\<close>. A definition without suffix
  embeds \<^verbatim>\<open>popup.js\<close>; the suffixes \<open>_p0\<close> and \<open>_p1\<close> mark the functions of
  \<^verbatim>\<open>part_000\<close> and \<^verbatim>\<open>part_001\<close> where they differ from it.

  Strings are ASCII strings. Times are integers (milliseconds since the epoch), as
  \<^verbatim>\<open>Date.now()\<close> returns them. Console logging, CSS classes and the loading state of
  buttons are left out; every DOM node of \<^verbatim>\<open>nodes\<close> is taken to exist.
\<close>

record user_rec =
  user_name :: "string option"
  user_email :: "string option"

record creds =
  creds_email :: string
  creds_password :: string

record entry =
  entry_type :: string
  entry_timestamp :: int

datatype view = LoginView | DashboardView

datatype endpoint = Me | UserStatus | PunchHistory | PunchAction string int

datatype request =
    Login string string
  | Logout string
  | Api string endpoint

datatype 'a response = Response (status: nat) (status_text: string) (json: "'a option")

datatype 'a reply = NetworkFailure string | Reply "'a response"

record app =
  token :: "string option"
  user :: "user_rec option"
  theme :: "string option"
  savedCreds :: "creds option"
  punchInTime :: "int option"
  history :: "entry list option"
  timerInterval :: "nat option"
  intervals :: "nat list"
  nextIntervalId :: nat
  view :: view
  userNameText :: string
  timerDisplay :: string
  punchBtnText :: string
  punchBtnDisabled :: bool
  statusText :: string
  historyList :: "entry list"
  toasts :: "string list"
  requests :: "request list"

text \<open>
  The host as a handler sees it: \<^verbatim>\<open>navigator.onLine\<close>, the clock, and the parts of
  \<^verbatim>\<open>Date\<close> that depend on the local time zone. \<open>setHours t h m s\<close> is
  \<^verbatim>\<open>d = new Date(t); d.setHours(h, m, s, 0); d.getTime()\<close>; \<open>dateParse str\<close> is
  \<^verbatim>\<open>new Date(str).getTime()\<close>, \<open>None\<close> for \<^verbatim>\<open>NaN\<close>.
\<close>

record host =
  onLine :: bool
  now :: int
  toDateString :: "int \<Rightarrow> string"
  setHours :: "int \<Rightarrow> nat \<Rightarrow> nat \<Rightarrow> nat \<Rightarrow> int"
  dateParse :: "string \<Rightarrow> int option"

definition PUNCH_DELAY_MS :: int where
  "PUNCH_DELAY_MS = 2 * 60 * 60 * 1000"

section \<open>JavaScript values\<close>

text \<open>Truthiness of an optional string (absent and the empty string are falsy) and of an
  optional number (absent and zero are falsy).\<close>

fun truthyS :: "string option \<Rightarrow> bool" where
  "truthyS None = False"
| "truthyS (Some s) = (s \<noteq> [])"

fun truthyN :: "int option \<Rightarrow> bool" where
  "truthyN None = False"
| "truthyN (Some n) = (n \<noteq> 0)"

text \<open>\<^verbatim>\<open>a || b\<close> on optional strings.\<close>

definition orS :: "string option \<Rightarrow> string option \<Rightarrow> string option" where
  "orS a b = (if truthyS a then a else b)"

definition response_ok :: "'a response \<Rightarrow> bool" where
  "response_ok r = (200 \<le> status r \<and> status r \<le> 299)"

text \<open>\<^verbatim>\<open>String(n)\<close> for an integer.\<close>

fun digits :: "nat \<Rightarrow> string" where
  "digits n =
     (if n < 10 then [''0123456789'' ! n]
      else digits (n div 10) @ [''0123456789'' ! (n mod 10)])"

declare digits.simps [simp del]

definition String :: "int \<Rightarrow> string" where
  "String i = (if i < 0 then CHR ''-'' # digits (nat (- i)) else digits (nat i))"

text \<open>\<^verbatim>\<open>s.padStart(2, '0')\<close>.\<close>

definition padStart2 :: "string \<Rightarrow> string" where
  "padStart2 s = replicate (2 - length s) CHR ''0'' @ s"

text \<open>\<^verbatim>\<open>a % b\<close> for integers and positive \<open>b\<close>: the sign follows the dividend.\<close>

definition js_rem :: "int \<Rightarrow> int \<Rightarrow> int" where
  "js_rem a b = (if a < 0 then - ((- a) mod b) else a mod b)"

text \<open>\<^verbatim>\<open>Math.ceil(a / b)\<close> for integers and positive \<open>b\<close>.\<close>

definition ceil_div :: "int \<Rightarrow> int \<Rightarrow> int" where
  "ceil_div a b = - ((- a) div b)"

text \<open>\<^verbatim>\<open>s.toLowerCase()\<close> and \<^verbatim>\<open>s.toUpperCase()\<close> on ASCII.\<close>

definition toUpperChar :: "char \<Rightarrow> char" where
  "toUpperChar c =
     (case map_of (zip ''abcdefghijklmnopqrstuvwxyz'' ''ABCDEFGHIJKLMNOPQRSTUVWXYZ'') c of
        Some u \<Rightarrow> u | None \<Rightarrow> c)"

definition toLowerChar :: "char \<Rightarrow> char" where
  "toLowerChar c =
     (case map_of (zip ''ABCDEFGHIJKLMNOPQRSTUVWXYZ'' ''abcdefghijklmnopqrstuvwxyz'') c of
        Some l \<Rightarrow> l | None \<Rightarrow> c)"

definition toUpperCase :: "string \<Rightarrow> string" where
  "toUpperCase s = map toUpperChar s"

definition toLowerCase :: "string \<Rightarrow> string" where
  "toLowerCase s = map toLowerChar s"

text \<open>\<^verbatim>\<open>s.includes(p)\<close>.\<close>

fun str_includes :: "string \<Rightarrow> string \<Rightarrow> bool" where
  "str_includes [] p = (p = [])"
| "str_includes (c # cs) p = (take (length p) (c # cs) = p \<or> str_includes cs p)"

text \<open>\<^verbatim>\<open>s.trim()\<close>: white space is tab, line feed, vertical tab, form feed, carriage
  return and space.\<close>

definition isSpace :: "char \<Rightarrow> bool" where
  "isSpace c = (c \<in> set [CHR 0x09, CHR 0x0A, CHR 0x0B, CHR 0x0C, CHR 0x0D, CHR '' ''])"

definition trim :: "string \<Rightarrow> string" where
  "trim s = rev (dropWhile isSpace (rev (dropWhile isSpace s)))"

text \<open>\<^verbatim>\<open>xs.slice(-n)\<close>: the last \<open>n\<close> elements, all of them when there are fewer.\<close>

definition slice_last :: "nat \<Rightarrow> 'a list \<Rightarrow> 'a list" where
  "slice_last n xs = drop (length xs - n) xs"

section \<open>Timer\<close>

text \<open>
  The host's \<^verbatim>\<open>setInterval\<close> hands out a fresh positive id and keeps the interval
  live until \<^verbatim>\<open>clearInterval\<close> is called with that id. \<open>intervals\<close> lists the live
  ones: each of them calls \<^verbatim>\<open>update\<close> once a second.
\<close>

definition clearInterval :: "nat \<Rightarrow> app \<Rightarrow> app" where
  "clearInterval i s = s\<lparr>intervals := removeAll i (intervals s)\<rparr>"

definition setInterval :: "app \<Rightarrow> nat \<times> app" where
  "setInterval s =
     (nextIntervalId s,
      s\<lparr>intervals := intervals s @ [nextIntervalId s],
        nextIntervalId := Suc (nextIntervalId s)\<rparr>)"

text \<open>The tick: \<^verbatim>\<open>update\<close> writes the elapsed time as \<^verbatim>\<open>HH:MM:SS\<close>.\<close>

definition update :: "host \<Rightarrow> int \<Rightarrow> app \<Rightarrow> app" where
  "update h startTime s =
     (let diff = now h - startTime;
          hh = padStart2 (String (diff div 3600000));
          mm = padStart2 (String (js_rem diff 3600000 div 60000));
          ss = padStart2 (String (js_rem diff 60000 div 1000))
      in s\<lparr>timerDisplay := hh @ '':'' @ mm @ '':'' @ ss\<rparr>)"

text \<open>\<^verbatim>\<open>if (timerInterval)\<close> holds when the handle is set and not 0.\<close>

definition startTimer :: "host \<Rightarrow> int \<Rightarrow> app \<Rightarrow> app" where
  "startTimer h startTime s =
     (let s1 = (case timerInterval s of
                  None \<Rightarrow> s
                | Some i \<Rightarrow> if i \<noteq> 0 then clearInterval i s else s);
          s2 = update h startTime s1;
          (i, s3) = setInterval s2
      in s3\<lparr>timerInterval := Some i\<rparr>)"

definition stopTimer :: "app \<Rightarrow> app" where
  "stopTimer s =
     (let s1 = (case timerInterval s of
                  None \<Rightarrow> s
                | Some i \<Rightarrow> if i \<noteq> 0 then clearInterval i s else s)
      in s1\<lparr>timerInterval := None\<rparr>)"

text \<open>The popup when its script is loaded: \<^verbatim>\<open>timerInterval\<close> is \<^verbatim>\<open>null\<close>, no
  interval is live, and the ids that the host hands out are positive.\<close>

definition fresh :: "app \<Rightarrow> bool" where
  "fresh s = (timerInterval s = None \<and> intervals s = [] \<and> 0 < nextIntervalId s)"

text \<open>The handle invariant: every live interval is the one \<open>timerInterval\<close> names.\<close>

definition timer_inv :: "app \<Rightarrow> bool" where
  "timer_inv s =
     (0 < nextIntervalId s \<and>
      (case timerInterval s of
         None \<Rightarrow> intervals s = []
       | Some i \<Rightarrow> intervals s = [i] \<and> 0 < i \<and> i < nextIntervalId s))"

section \<open>View helpers\<close>

definition showToast :: "string \<Rightarrow> app \<Rightarrow> app" where
  "showToast msg s = s\<lparr>toasts := toasts s @ [msg]\<rparr>"

definition showError :: "string \<Rightarrow> app \<Rightarrow> app" where
  "showError msg s = showToast msg s"

definition transitionToView :: "view \<Rightarrow> app \<Rightarrow> app" where
  "transitionToView v s = s\<lparr>view := v\<rparr>"

definition setupDashboard :: "user_rec option \<Rightarrow> app \<Rightarrow> app" where
  "setupDashboard u s =
     (let nm = (case u of None \<Rightarrow> None | Some r \<Rightarrow> user_name r)
      in transitionToView DashboardView
           (s\<lparr>userNameText := (case orS nm (Some ''Employee'') of Some n \<Rightarrow> n | None \<Rightarrow> [])\<rparr>))"

definition updatePunchUI :: "host \<Rightarrow> bool \<Rightarrow> int option \<Rightarrow> app \<Rightarrow> app" where
  "updatePunchUI h active pit s =
     s\<lparr>punchBtnText := (if active then ''Punch Out'' else ''Punch In''),
       punchBtnDisabled :=
         (case pit of
            None \<Rightarrow> False
          | Some t \<Rightarrow> active \<and> t \<noteq> 0 \<and> now h - t < PUNCH_DELAY_MS),
       statusText := (if active then ''Online'' else ''Offline''),
       timerDisplay := (if active then timerDisplay s else ''00:00:00'')\<rparr>"

text \<open>\<open>historyList\<close> holds the entries that the list shows, top first; the empty list
  stands for the placeholder "No session activity found".\<close>

definition renderHistory :: "entry list option \<Rightarrow> app \<Rightarrow> app" where
  "renderHistory hist s =
     (case hist of
        None \<Rightarrow> s\<lparr>historyList := []\<rparr>
      | Some xs \<Rightarrow>
          if length xs = 0 then s\<lparr>historyList := []\<rparr>
          else s\<lparr>historyList := rev (slice_last 5 xs)\<rparr>)"

definition logActivity :: "host \<Rightarrow> string \<Rightarrow> app \<Rightarrow> app" where
  "logActivity h ty s =
     (let hist = (case history s of None \<Rightarrow> [] | Some xs \<Rightarrow> xs);
          hist1 = hist @ [\<lparr>entry_type = ty, entry_timestamp = now h\<rparr>];
          snapshot = slice_last 20 hist1
      in renderHistory (Some snapshot) (s\<lparr>history := Some snapshot\<rparr>))"

section \<open>Logout and the API helper\<close>

text \<open>
  \<open>handleLogout\<close> notifies the server when a token is stored (the answer is ignored)
  and then removes keys from the store: \<^verbatim>\<open>popup.js\<close> removes token, user and
  punchInTime; \<^verbatim>\<open>part_000\<close> keeps punchInTime when called with
  \<^verbatim>\<open>{ preservePunch: true }\<close>; \<^verbatim>\<open>part_001\<close> clears the whole store.
\<close>

definition notifyLogout :: "app \<Rightarrow> app" where
  "notifyLogout s =
     (case token s of
        None \<Rightarrow> s
      | Some tok \<Rightarrow> if tok \<noteq> [] then s\<lparr>requests := requests s @ [Logout tok]\<rparr> else s)"

definition handleLogout :: "app \<Rightarrow> app" where
  "handleLogout s =
     (let s1 = notifyLogout s;
          s2 = s1\<lparr>token := None, user := None, punchInTime := None\<rparr>
      in showToast ''Logged out successfully'' (transitionToView LoginView (stopTimer s2)))"

definition handleLogout_p0 :: "bool \<Rightarrow> app \<Rightarrow> app" where
  "handleLogout_p0 preservePunch s =
     (let s1 = notifyLogout s;
          s2 = (if preservePunch then s1\<lparr>token := None, user := None\<rparr>
                else s1\<lparr>token := None, user := None, punchInTime := None\<rparr>)
      in showToast ''Logged out successfully'' (transitionToView LoginView (stopTimer s2)))"

definition handleLogout_p1 :: "app \<Rightarrow> app" where
  "handleLogout_p1 s =
     (let s1 = notifyLogout s;
          s2 = s1\<lparr>token := None, user := None, theme := None, savedCreds := None,
                  punchInTime := None, history := None\<rparr>
      in showToast ''Logged out successfully'' (transitionToView LoginView (stopTimer s2)))"

text \<open>
  \<open>apiFetch\<close> returns the response, or the message of the error it throws. It calls
  \<open>handleLogout\<close> without awaiting it; the model runs the logout to its end before the
  caller goes on. The server's answer to the request is the parameter \<open>reply\<close>.
\<close>

definition apiFetch :: "endpoint \<Rightarrow> 'a reply \<Rightarrow> app \<Rightarrow> (string + 'a response) \<times> app" where
  "apiFetch ep reply s =
     (case token s of
        None \<Rightarrow> (Inl ''No token found'', handleLogout s)
      | Some tok \<Rightarrow>
          if tok = [] then (Inl ''No token found'', handleLogout s)
          else
            let s1 = s\<lparr>requests := requests s @ [Api tok ep]\<rparr> in
            (case reply of
               NetworkFailure msg \<Rightarrow> (Inl (''Network request failed: '' @ msg), s1)
             | Reply r \<Rightarrow>
                 if status r = 401
                 then (Inl ''Network request failed: Session expired'', handleLogout s1)
                 else (Inr r, s1)))"

definition apiFetch_p0 :: "endpoint \<Rightarrow> 'a reply \<Rightarrow> app \<Rightarrow> (string + 'a response) \<times> app" where
  "apiFetch_p0 ep reply s =
     (case token s of
        None \<Rightarrow> (Inl ''No token found'', handleLogout_p0 True s)
      | Some tok \<Rightarrow>
          if tok = [] then (Inl ''No token found'', handleLogout_p0 True s)
          else
            let s1 = s\<lparr>requests := requests s @ [Api tok ep]\<rparr> in
            (case reply of
               NetworkFailure msg \<Rightarrow> (Inl (''Network request failed: '' @ msg), s1)
             | Reply r \<Rightarrow>
                 if status r = 401
                 then (Inl ''Network request failed: Session expired'', handleLogout_p0 True s1)
                 else (Inr r, s1)))"

definition apiFetch_p1 :: "endpoint \<Rightarrow> 'a reply \<Rightarrow> app \<Rightarrow> (string + 'a response) \<times> app" where
  "apiFetch_p1 ep reply s =
     (case token s of
        None \<Rightarrow> (Inl ''No token found'', handleLogout_p1 s)
      | Some tok \<Rightarrow>
          if tok = [] then (Inl ''No token found'', handleLogout_p1 s)
          else
            let s1 = s\<lparr>requests := requests s @ [Api tok ep]\<rparr> in
            (case reply of
               NetworkFailure msg \<Rightarrow> (Inl msg, s1)
             | Reply r \<Rightarrow>
                 if status r = 401 then (Inl ''Session expired'', handleLogout_p1 s1)
                 else (Inr r, s1)))"

section \<open>Profile and history sync\<close>

text \<open>The body of \<^verbatim>\<open>/me\<close> is \<^verbatim>\<open>result.user\<close>, the body of \<^verbatim>\<open>/punch/history\<close> is
  \<^verbatim>\<open>result.history\<close>; \<open>None\<close> when the field is absent.\<close>

record me_user =
  me_name :: "string option"
  business_email :: "string option"

definition fetchMe :: "me_user option reply \<Rightarrow> app \<Rightarrow> app" where
  "fetchMe reply s =
     (case apiFetch Me reply s of
        (Inl e, s1) \<Rightarrow> s1
      | (Inr r, s1) \<Rightarrow>
          (case json r of
             None \<Rightarrow> s1
           | Some result \<Rightarrow>
               (case result of
                  None \<Rightarrow> s1
                | Some u \<Rightarrow>
                    if response_ok r
                    then s1\<lparr>userNameText := (case me_name u of Some n \<Rightarrow> n | None \<Rightarrow> []),
                            user := Some \<lparr>user_name = me_name u, user_email = business_email u\<rparr>\<rparr>
                    else s1)))"

definition fetchMe_p0 :: "me_user option reply \<Rightarrow> app \<Rightarrow> app" where
  "fetchMe_p0 reply s =
     (case apiFetch_p0 Me reply s of
        (Inl e, s1) \<Rightarrow> s1
      | (Inr r, s1) \<Rightarrow>
          (case json r of
             None \<Rightarrow> s1
           | Some result \<Rightarrow>
               (case result of
                  None \<Rightarrow> s1
                | Some u \<Rightarrow>
                    if response_ok r
                    then s1\<lparr>userNameText := (case me_name u of Some n \<Rightarrow> n | None \<Rightarrow> []),
                            user := Some \<lparr>user_name = me_name u, user_email = business_email u\<rparr>\<rparr>
                    else s1)))"

definition fetchHistory :: "entry list option reply \<Rightarrow> app \<Rightarrow> app" where
  "fetchHistory reply s =
     (case apiFetch PunchHistory reply s of
        (Inl e, s1) \<Rightarrow> s1
      | (Inr r, s1) \<Rightarrow>
          (case json r of
             None \<Rightarrow> s1
           | Some result \<Rightarrow>
               (case result of
                  None \<Rightarrow> s1
                | Some hist \<Rightarrow>
                    if response_ok r
                    then (renderHistory (Some hist) s1)\<lparr>history := Some hist\<rparr>
                    else s1)))"

definition fetchHistory_p0 :: "entry list option reply \<Rightarrow> app \<Rightarrow> app" where
  "fetchHistory_p0 reply s =
     (case apiFetch_p0 PunchHistory reply s of
        (Inl e, s1) \<Rightarrow> s1
      | (Inr r, s1) \<Rightarrow>
          (case json r of
             None \<Rightarrow> s1
           | Some result \<Rightarrow>
               (case result of
                  None \<Rightarrow> s1
                | Some hist \<Rightarrow>
                    if response_ok r
                    then (renderHistory (Some hist) s1)\<lparr>history := Some hist\<rparr>
                    else s1)))"

section \<open>Status sync\<close>

text \<open>
  \<^verbatim>\<open>/user/status\<close> answers \<^verbatim>\<open>{ isPunchedIn, punchInTime }\<close>. The time is a string as
  a rule; a number is kept apart because \<^verbatim>\<open>serverPunchInTime.includes\<close> throws on it.
\<close>

datatype js_time = TimeAbsent | TimeStr string | TimeNum int

fun truthyT :: "js_time \<Rightarrow> bool" where
  "truthyT TimeAbsent = False"
| "truthyT (TimeStr s) = (s \<noteq> [])"
| "truthyT (TimeNum n) = (n \<noteq> 0)"

record status_result =
  isPunchedIn :: bool
  serverPunchInTime :: js_time

text \<open>
  The regular expression \<^verbatim>\<open>/(\d{1,2}):(\d{1,2}):(\d{1,2})(?:\s*(AM|PM))?/i\<close>.
  \<open>digits12\<close> is a greedy \<^verbatim>\<open>\d{1,2}\<close>: where two digits stand and no colon follows,
  one digit is followed by a digit, so backtracking finds nothing more. \<open>matchTime\<close>
  tries each start from the left, as \<^verbatim>\<open>String.prototype.match\<close> does.
\<close>

definition isDigit :: "char \<Rightarrow> bool" where
  "isDigit c = (c \<in> set ''0123456789'')"

definition digitVal :: "char \<Rightarrow> nat" where
  "digitVal c = of_char c - 48"

definition parseInt :: "string \<Rightarrow> nat" where
  "parseInt ds = foldl (\<lambda>n c. 10 * n + digitVal c) 0 ds"

fun digits12 :: "string \<Rightarrow> (string \<times> string) option" where
  "digits12 (a # b # cs) =
     (if isDigit a then (if isDigit b then Some ([a, b], cs) else Some ([a], b # cs))
      else None)"
| "digits12 [a] = (if isDigit a then Some ([a], []) else None)"
| "digits12 [] = None"

fun colon :: "string \<Rightarrow> string option" where
  "colon (c # cs) = (if c = CHR '':'' then Some cs else None)"
| "colon [] = None"

definition amPm :: "string \<Rightarrow> string option" where
  "amPm cs =
     (case dropWhile isSpace cs of
        a # b # rest \<Rightarrow>
          if a \<in> set ''aApP'' \<and> b \<in> set ''mM'' then Some [a, b] else None
      | _ \<Rightarrow> None)"

definition matchAt :: "string \<Rightarrow> (nat \<times> nat \<times> nat \<times> string option) option" where
  "matchAt cs =
     (case digits12 cs of
        None \<Rightarrow> None
      | Some (hh, r1) \<Rightarrow>
     (case colon r1 of
        None \<Rightarrow> None
      | Some r2 \<Rightarrow>
     (case digits12 r2 of
        None \<Rightarrow> None
      | Some (mm, r3) \<Rightarrow>
     (case colon r3 of
        None \<Rightarrow> None
      | Some r4 \<Rightarrow>
     (case digits12 r4 of
        None \<Rightarrow> None
      | Some (ss, r5) \<Rightarrow> Some (parseInt hh, parseInt mm, parseInt ss, amPm r5))))))"

fun matchTime :: "string \<Rightarrow> (nat \<times> nat \<times> nat \<times> string option) option" where
  "matchTime [] = None"
| "matchTime (c # cs) =
     (case matchAt (c # cs) of Some m \<Rightarrow> Some m | None \<Rightarrow> matchTime cs)"

definition adjustHours :: "string option \<Rightarrow> nat \<Rightarrow> nat" where
  "adjustHours modifier hours =
     (case modifier of
        None \<Rightarrow> hours
      | Some md \<Rightarrow>
          let h1 = (if toUpperCase md = ''PM'' \<and> hours < 12 then hours + 12 else hours)
          in if toUpperCase md = ''AM'' \<and> h1 = 12 then 0 else h1)"

text \<open>The branch \<^verbatim>\<open>if (serverPunchInTime.includes(':'))\<close>: \<open>None\<close> stands for a
  \<^verbatim>\<open>parsedTime\<close> left undefined.\<close>

definition parseTimeOfDay :: "host \<Rightarrow> string \<Rightarrow> int option" where
  "parseTimeOfDay h str =
     (case matchTime str of
        None \<Rightarrow> None
      | Some (hours, minutes, seconds, modifier) \<Rightarrow>
          Some (setHours h (now h) (adjustHours modifier hours) minutes seconds))"

text \<open>The tail of the punched-in branch of \<^verbatim>\<open>popup.js\<close>:
  \<^verbatim>\<open>if (startTime) { startTimer(startTime); updatePunchUI(true, startTime); }\<close>.\<close>

definition showPunchedIn :: "host \<Rightarrow> int option \<Rightarrow> app \<Rightarrow> app" where
  "showPunchedIn h startTime s =
     (case startTime of
        None \<Rightarrow> s
      | Some st \<Rightarrow> if st \<noteq> 0 then updatePunchUI h True (Some st) (startTimer h st s) else s)"

definition fetchStatus :: "host \<Rightarrow> status_result reply \<Rightarrow> app \<Rightarrow> app" where
  "fetchStatus h reply s =
     (case apiFetch UserStatus reply s of
        (Inl e, s1) \<Rightarrow> s1
      | (Inr r, s1) \<Rightarrow>
          (case json r of
             None \<Rightarrow> s1
           | Some result \<Rightarrow>
               if response_ok r then
                 if isPunchedIn result then
                   (let startTime = punchInTime s1 in
                    if \<not> truthyN startTime \<and> truthyT (serverPunchInTime result) then
                      (case serverPunchInTime result of
                         TimeStr str \<Rightarrow>
                           let parsedTime =
                                 (if CHR '':'' \<in> set str then parseTimeOfDay h str else None);
                               st = (case parsedTime of
                                       None \<Rightarrow> now h
                                     | Some p \<Rightarrow> if p \<noteq> 0 then p else now h)
                           in showPunchedIn h (Some st) (s1\<lparr>punchInTime := Some st\<rparr>)
                       | _ \<Rightarrow> showPunchedIn h (Some (now h)) s1)
                    else showPunchedIn h startTime s1)
                 else updatePunchUI h False None (stopTimer (s1\<lparr>punchInTime := None\<rparr>))
               else s1))"

definition fetchStatus_p0 :: "host \<Rightarrow> status_result reply \<Rightarrow> app \<Rightarrow> app" where
  "fetchStatus_p0 h reply s =
     (case apiFetch_p0 UserStatus reply s of
        (Inl e, s1) \<Rightarrow> s1
      | (Inr r, s1) \<Rightarrow>
          (case json r of
             None \<Rightarrow> s1
           | Some result \<Rightarrow>
               if response_ok r then
                 (let localStartTime = punchInTime s1 in
                  if isPunchedIn result then
                    (let parsed =
                           (if \<not> truthyN localStartTime \<and> truthyT (serverPunchInTime result) then
                              (case serverPunchInTime result of
                                 TimeStr str \<Rightarrow>
                                   (case (if CHR '':'' \<in> set str then parseTimeOfDay h str
                                          else dateParse h str) of
                                      None \<Rightarrow> None
                                    | Some p \<Rightarrow> if p \<noteq> 0 then Some p else None)
                               | _ \<Rightarrow> None)
                            else None);
                         (startTime, s2) =
                           (case parsed of
                              None \<Rightarrow> (localStartTime, s1)
                            | Some p \<Rightarrow> (Some p, s1\<lparr>punchInTime := Some p\<rparr>));
                         (st, s3) =
                           (case startTime of
                              None \<Rightarrow> (now h, s2\<lparr>punchInTime := Some (now h)\<rparr>)
                            | Some t \<Rightarrow>
                                if t \<noteq> 0 then (t, s2)
                                else (now h, s2\<lparr>punchInTime := Some (now h)\<rparr>))
                     in updatePunchUI h True (Some st) (startTimer h st s3))
                  else
                    (case localStartTime of
                       None \<Rightarrow> updatePunchUI h False None (stopTimer s1)
                     | Some t \<Rightarrow>
                         if t \<noteq> 0 then updatePunchUI h True (Some t) (startTimer h t s1)
                         else updatePunchUI h False None (stopTimer s1)))
               else s1))"

section \<open>Punch\<close>

record punch_result =
  r_status :: "string option"
  r_success :: bool
  r_error :: "string option"
  r_message :: "string option"
  r_msg :: "string option"
  r_data_status :: "string option"

definition hasError :: "punch_result \<Rightarrow> bool" where
  "hasError result =
     (truthyS (r_error result)
      \<or> (case r_message result of
            None \<Rightarrow> False
          | Some m \<Rightarrow> m \<noteq> [] \<and> str_includes (toLowerCase m) ''error'')
      \<or> (case r_status result of
            None \<Rightarrow> False
          | Some st \<Rightarrow> st \<noteq> [] \<and> toLowerCase st = ''error''))"

definition isSuccess :: "punch_result \<Rightarrow> bool" where
  "isSuccess result =
     (r_status result = Some ''success'' \<or> r_success result
      \<or> r_data_status result = Some ''success'')"

definition orElse :: "string option \<Rightarrow> string \<Rightarrow> string" where
  "orElse a d = (case a of None \<Rightarrow> d | Some x \<Rightarrow> if x \<noteq> [] then x else d)"

definition hasPunchedOutToday :: "host \<Rightarrow> app \<Rightarrow> bool" where
  "hasPunchedOutToday h s =
     (let hist = (case history s of None \<Rightarrow> [] | Some xs \<Rightarrow> xs);
          todayStr = toDateString h (now h)
      in list_ex (\<lambda>item. entry_type item = ''out''
                     \<and> toDateString h (entry_timestamp item) = todayStr) hist)"

definition minStayMessage :: "int \<Rightarrow> int \<Rightarrow> string" where
  "minStayMessage nw pit =
     ''Min. stay required: '' @ String (ceil_div (PUNCH_DELAY_MS - (nw - pit)) 60000)
       @ '' mins left''"

text \<open>The message of the single-shift check; the source writes the apostrophe as
  U+2019.\<close>

definition shiftDoneMessage :: string where
  "shiftDoneMessage = ''Already completed today'' @ [CHR 0x27] @ ''s attendance''"

text \<open>
  The \<^verbatim>\<open>try\<close> block of \<open>handlePunch\<close> with its \<^verbatim>\<open>catch\<close> and \<^verbatim>\<open>finally\<close>.
  \<open>punchReply\<close> answers \<^verbatim>\<open>/punch/action\<close>, \<open>historyReply\<close> the
  \<^verbatim>\<open>/punch/history\<close> call that follows a success. Writes to the store succeed.
\<close>

definition punchRequest ::
  "host \<Rightarrow> string \<Rightarrow> bool \<Rightarrow> punch_result reply \<Rightarrow> entry list option reply \<Rightarrow> app \<Rightarrow> app" where
  "punchRequest h ty wasIn punchReply historyReply s =
     (let s9 =
        (case apiFetch (PunchAction ty (now h div 1000)) punchReply s of
           (Inl e, s1) \<Rightarrow> showToast (''Punch failed: '' @ e) s1
         | (Inr r, s1) \<Rightarrow>
             (case json r of
                None \<Rightarrow>
                  showToast (''Server error: '' @ String (int (status r)) @ '' '' @ status_text r) s1
              | Some result \<Rightarrow>
                  if response_ok r \<and> status r = 200 \<and> (isSuccess result \<or> \<not> hasError result)
                  then
                    (let s2 =
                       (if ty = ''in''
                        then showToast (orElse (r_message result) ''Punched In Successfully'')
                               (updatePunchUI h True (Some (now h))
                                 (startTimer h (now h) (s1\<lparr>punchInTime := Some (now h)\<rparr>)))
                        else showToast (orElse (r_message result) ''Punched Out Successfully'')
                               (updatePunchUI h False None
                                 (stopTimer (s1\<lparr>punchInTime := None\<rparr>))))
                     in fetchHistory historyReply s2)
                  else
                    showToast
                      (orElse (orS (orS (r_message result) (r_error result)) (r_msg result))
                         (''Action failed ('' @ String (int (status r)) @ '')'')) s1))
      in s9\<lparr>punchBtnText := (if wasIn then ''Punch Out'' else ''Punch In'')\<rparr>)"

definition handlePunch ::
  "host \<Rightarrow> punch_result reply \<Rightarrow> entry list option reply \<Rightarrow> app \<Rightarrow> app" where
  "handlePunch h punchReply historyReply s =
     (if \<not> onLine h then showToast ''Offline: Check connection'' s
      else if \<not> truthyS (token s) then handleLogout s
      else
        let wasIn = truthyN (punchInTime s);
            ty = (if wasIn then ''out'' else ''in'')
        in if \<not> wasIn \<and> hasPunchedOutToday h s then showToast shiftDoneMessage s
           else
             (case punchInTime s of
                None \<Rightarrow> punchRequest h ty wasIn punchReply historyReply s
              | Some pit \<Rightarrow>
                  if wasIn \<and> now h - pit < PUNCH_DELAY_MS
                  then showToast (minStayMessage (now h) pit) s
                  else punchRequest h ty wasIn punchReply historyReply s))"

definition punchRequest_p0 ::
  "host \<Rightarrow> string \<Rightarrow> bool \<Rightarrow> punch_result reply \<Rightarrow> entry list option reply \<Rightarrow> app \<Rightarrow> app" where
  "punchRequest_p0 h ty wasIn punchReply historyReply s =
     (let s9 =
        (case apiFetch_p0 (PunchAction ty (now h div 1000)) punchReply s of
           (Inl e, s1) \<Rightarrow> showToast (''Punch failed: '' @ e) s1
         | (Inr r, s1) \<Rightarrow>
             (case json r of
                None \<Rightarrow>
                  showToast (''Server error: '' @ String (int (status r)) @ '' '' @ status_text r) s1
              | Some result \<Rightarrow>
                  if response_ok r \<and> status r = 200 \<and> (isSuccess result \<or> \<not> hasError result)
                  then
                    (let s2 =
                       (if ty = ''in''
                        then showToast (orElse (r_message result) ''Punched In Successfully'')
                               (updatePunchUI h True (Some (now h))
                                 (startTimer h (now h) (s1\<lparr>punchInTime := Some (now h)\<rparr>)))
                        else showToast (orElse (r_message result) ''Punched Out Successfully'')
                               (updatePunchUI h False None
                                 (stopTimer (s1\<lparr>punchInTime := None\<rparr>))))
                     in fetchHistory_p0 historyReply s2)
                  else
                    showToast
                      (orElse (orS (orS (r_message result) (r_error result)) (r_msg result))
                         (''Action failed ('' @ String (int (status r)) @ '')'')) s1))
      in s9\<lparr>punchBtnText := (if wasIn then ''Punch Out'' else ''Punch In'')\<rparr>)"

definition handlePunch_p0 ::
  "host \<Rightarrow> punch_result reply \<Rightarrow> entry list option reply \<Rightarrow> app \<Rightarrow> app" where
  "handlePunch_p0 h punchReply historyReply s =
     (if \<not> onLine h then showToast ''Offline: Check connection'' s
      else if \<not> truthyS (token s) then handleLogout_p0 True s
      else
        let wasIn = truthyN (punchInTime s);
            ty = (if wasIn then ''out'' else ''in'')
        in if \<not> wasIn \<and> hasPunchedOutToday h s then showToast shiftDoneMessage s
           else
             (case punchInTime s of
                None \<Rightarrow> punchRequest_p0 h ty wasIn punchReply historyReply s
              | Some pit \<Rightarrow>
                  if wasIn \<and> now h - pit < PUNCH_DELAY_MS
                  then showToast (minStayMessage (now h) pit) s
                  else punchRequest_p0 h ty wasIn punchReply historyReply s))"

section \<open>Login\<close>

text \<open>The fields of the \<^verbatim>\<open>/login\<close> answer that \<open>handleLogin\<close> reads: \<^verbatim>\<open>result.token\<close>,
  \<^verbatim>\<open>result.data?.token\<close>, \<^verbatim>\<open>result.user?.name\<close>, \<^verbatim>\<open>result.data?.user?.name\<close> and
  \<^verbatim>\<open>result.message\<close>.\<close>

record login_result =
  l_token :: "string option"
  l_data_token :: "string option"
  l_user_name :: "string option"
  l_data_user_name :: "string option"
  l_message :: "string option"

text \<open>\<^verbatim>\<open>email.split('@')[0]\<close>.\<close>

definition beforeAt :: "string \<Rightarrow> string" where
  "beforeAt email = takeWhile (\<lambda>c. c \<noteq> CHR ''@'') email"

text \<open>\<open>emailValue\<close> and \<open>passwordValue\<close> are the values of the two input fields,
  \<open>remember\<close> is \<^verbatim>\<open>nodes.rememberCheckbox?.checked\<close>.\<close>

definition handleLogin ::
  "host \<Rightarrow> string \<Rightarrow> string \<Rightarrow> bool \<Rightarrow> login_result reply \<Rightarrow> app \<Rightarrow> app" where
  "handleLogin h emailValue passwordValue remember reply s =
     (let email = trim emailValue; password = passwordValue in
      if email = [] \<or> password = [] then showError ''Invalid credentials provided.'' s
      else
        let s1 = s\<lparr>requests := requests s @ [Login email password]\<rparr> in
        (case reply of
           NetworkFailure msg \<Rightarrow> showError ''Connection error during login.'' s1
         | Reply r \<Rightarrow>
             (case json r of
                None \<Rightarrow> showError ''Connection error during login.'' s1
              | Some result \<Rightarrow>
                  if response_ok r \<and> (truthyS (l_token result) \<or> truthyS (l_data_token result))
                  then
                    (let tok = orS (l_token result) (l_data_token result);
                         u = \<lparr>user_name =
                                 orS (orS (l_user_name result) (l_data_user_name result))
                                   (Some (beforeAt email)),
                               user_email = Some email\<rparr>;
                         s2 = (if remember
                               then s1\<lparr>savedCreds :=
                                         Some \<lparr>creds_email = email, creds_password = password\<rparr>\<rparr>
                               else s1\<lparr>savedCreds := None\<rparr>);
                         s3 = s2\<lparr>token := tok, user := Some u\<rparr>
                     in showToast ''Welcome back''
                          (updatePunchUI h False None
                            (renderHistory (Some []) (setupDashboard (Some u) s3))))
                  else
                    showError (orElse (l_message result) ''Login failed. Check credentials.'') s1)))"

section \<open>A host for the examples\<close>

text \<open>A host whose local time is UTC: the date string is the number of the day, and
  \<open>setHours\<close> counts from the midnight before \<open>t\<close>. \<open>parse\<close> is its \<^verbatim>\<open>Date\<close> parser.\<close>

definition utc_host :: "bool \<Rightarrow> int \<Rightarrow> (string \<Rightarrow> int option) \<Rightarrow> host" where
  "utc_host online t parse =
     \<lparr>onLine = online, now = t,
      toDateString = (\<lambda>x. String (x div 86400000)),
      setHours = (\<lambda>x hh mm ss.
         (x div 86400000) * 86400000 + ((int hh * 60 + int mm) * 60 + int ss) * 1000),
      dateParse = parse\<rparr>"

text \<open>A popup just loaded, with an empty store, showing the login view.\<close>

definition app0 :: app where
  "app0 =
     \<lparr>token = None, user = None, theme = None, savedCreds = None, punchInTime = None,
      history = None, timerInterval = None, intervals = [], nextIntervalId = 1,
      view = LoginView, userNameText = [], timerDisplay = ''00:00:00'',
      punchBtnText = ''Punch In'', punchBtnDisabled = False, statusText = ''Offline'',
      historyList = [], toasts = [], requests = []\<rparr>"

section \<open>Runs of the popup\<close>

text \<open>
  What happens in a popup after it is loaded: the handlers of the buttons, the syncs,
  and calls of \<open>startTimer\<close> and \<open>stopTimer\<close> (as \<^verbatim>\<open>restoreLocalState\<close> of
  \<^verbatim>\<open>part_000\<close> makes them). \<open>run v\<close> runs a list of events with the functions of the
  variant \<open>v\<close>; a logout from the button is \<^verbatim>\<open>handleLogout()\<close> with
  \<^verbatim>\<open>preservePunch\<close> false.
\<close>

datatype variant = Popup | Part000

datatype event =
    EvLogin host string string bool "login_result reply"
  | EvLogout
  | EvPunch host "punch_result reply" "entry list option reply"
  | EvStatus host "status_result reply"
  | EvHistory "entry list option reply"
  | EvMe "me_user option reply"
  | EvStart host int
  | EvStop

fun step :: "variant \<Rightarrow> event \<Rightarrow> app \<Rightarrow> app" where
  "step v (EvLogin h e p rm reply) s = handleLogin h e p rm reply s"
| "step Popup EvLogout s = handleLogout s"
| "step Part000 EvLogout s = handleLogout_p0 False s"
| "step Popup (EvPunch h pr hr) s = handlePunch h pr hr s"
| "step Part000 (EvPunch h pr hr) s = handlePunch_p0 h pr hr s"
| "step Popup (EvStatus h reply) s = fetchStatus h reply s"
| "step Part000 (EvStatus h reply) s = fetchStatus_p0 h reply s"
| "step Popup (EvHistory reply) s = fetchHistory reply s"
| "step Part000 (EvHistory reply) s = fetchHistory_p0 reply s"
| "step Popup (EvMe reply) s = fetchMe reply s"
| "step Part000 (EvMe reply) s = fetchMe_p0 reply s"
| "step v (EvStart h t) s = startTimer h t s"
| "step v EvStop s = stopTimer s"

fun run :: "variant \<Rightarrow> event list \<Rightarrow> app \<Rightarrow> app" where
  "run v [] s = s"
| "run v (ev # evs) s = run v evs (step v ev s)"

text \<open>The syncs among the events; the events whose clock is not at the epoch; and the
  stores in which the punch-in time, if there is one, is not 0.\<close>

fun is_sync :: "event \<Rightarrow> bool" where
  "is_sync (EvStatus h reply) = True"
| "is_sync (EvHistory reply) = True"
| "is_sync (EvMe reply) = True"
| "is_sync ev = False"

fun clock_ok :: "event \<Rightarrow> bool" where
  "clock_ok (EvPunch h pr hr) = (now h \<noteq> 0)"
| "clock_ok (EvStatus h reply) = (now h \<noteq> 0)"
| "clock_ok ev = True"

definition stored_ok :: "app \<Rightarrow> bool" where
  "stored_ok s = (punchInTime s \<noteq> Some 0)"

section \<open>The request log\<close>


section \<open>Concrete inputs\<close>

text \<open>
  A host on 14 November 2023, 22:13:20 UTC, whose \<^verbatim>\<open>Date\<close> parser knows one ISO string
  (10 November 2023, 10:16:29 UTC); \<open>app1\<close> is logged in and was punched in 1000 seconds
  before; \<open>app2\<close> is logged in and not punched in.
\<close>

definition host1 :: host where
  "host1 = utc_host True 1700000000000
     (\<lambda>str. if str = ''2023-11-10T10:16:29Z'' then Some 1699611389000 else None)"

definition userA :: user_rec where
  "userA = \<lparr>user_name = Some ''A'', user_email = Some ''a@b.com''\<rparr>"

definition app1 :: app where
  "app1 = app0\<lparr>token := Some ''T1'', user := Some userA, punchInTime := Some 1699999000000\<rparr>"

definition app2 :: app where
  "app2 = app0\<lparr>token := Some ''T1'', user := Some userA\<rparr>"

definition notPunchedIn :: "status_result reply" where
  "notPunchedIn =
     Reply (Response 200 ''OK'' (Some \<lparr>isPunchedIn = False, serverPunchInTime = TimeAbsent\<rparr>))"

definition punchedInIso :: "status_result reply" where
  "punchedInIso =
     Reply (Response 200 ''OK''
       (Some \<lparr>isPunchedIn = True, serverPunchInTime = TimeStr ''2023-11-10T10:16:29Z''\<rparr>))"

definition unauthorized :: "status_result reply" where
  "unauthorized = Reply (Response 401 ''Unauthorized'' None)"

definition history21 :: "entry list" where
  "history21 = map (\<lambda>i. \<lparr>entry_type = ''in'', entry_timestamp = int i\<rparr>) [0..<21]"

definition history21Reply :: "entry list option reply" where
  "history21Reply = Reply (Response 200 ''OK'' (Some (Some history21)))"

definition punchOk :: "punch_result reply" where
  "punchOk =
     Reply (Response 200 ''OK''
       (Some \<lparr>r_status = Some ''success'', r_success = False, r_error = None,
              r_message = None, r_msg = None, r_data_status = None\<rparr>))"

definition loginOk :: "login_result reply" where
  "loginOk =
     Reply (Response 200 ''OK''
       (Some \<lparr>l_token = Some ''T2'', l_data_token = None, l_user_name = None,
              l_data_user_name = None, l_message = None\<rparr>))"




definition app5 :: app where
  "app5 = app0\<lparr>savedCreds :=
     Some \<lparr>creds_email = ''old@corp.example'', creds_password = ''old''\<rparr>\<rparr>"

section \<open>Frame lemmas\<close>

lemmas ui_defs = showToast_def showError_def transitionToView_def setupDashboard_def
  updatePunchUI_def renderHistory_def

lemmas timer_defs = startTimer_def stopTimer_def update_def setInterval_def clearInterval_def



lemma punchInTime_stopTimer: "punchInTime (stopTimer s) = punchInTime s"
  by (simp add: timer_defs Let_def split: option.splits)

lemma punchInTime_startTimer: "punchInTime (startTimer h t s) = punchInTime s"
  by (simp add: timer_defs Let_def split: option.splits)


lemma slice_last_length: "length (slice_last n xs) \<le> n"
  by (simp add: slice_last_def)

lemma ceil_div_ceiling: "0 < b \<Longrightarrow> ceil_div a b = \<lceil>real_of_int a / real_of_int b\<rceil>"
  by (simp add: ceil_div_def ceiling_divide_eq_div)

lemma host1_simps:
  "onLine host1"
  "now host1 = 1700000000000"
  "toDateString host1 t = String (t div 86400000)"
  "dateParse host1 str =
     (if str = ''2023-11-10T10:16:29Z'' then Some 1699611389000 else None)"
  by (simp_all add: host1_def utc_host_def)

section \<open>Status sync and the stored punch-in time\<close>

text \<open>
  In \<^verbatim>\<open>part_000\<close> a status sync never changes a punch-in time that is stored, whatever
  the server answers: punched in or not, an error status, a 401, no JSON, no answer.
\<close>

lemma fetchStatus_p0_keeps_punchInTime:
  assumes "punchInTime s = Some t" and "t \<noteq> 0"
  shows "punchInTime (fetchStatus_p0 h reply s) = Some t"
  using assms
  by (auto simp: fetchStatus_p0_def apiFetch_p0_def handleLogout_p0_def notifyLogout_def ui_defs
      punchInTime_stopTimer punchInTime_startTimer Let_def
      split: option.splits reply.splits js_time.splits if_splits)

text \<open>The other syncs of \<^verbatim>\<open>part_000\<close> do not touch it either, so it outlasts any
  number of syncs.\<close>

lemma apiFetch_p0_punchInTime:
  "punchInTime (snd (apiFetch_p0 ep reply s)) = punchInTime s"
  by (auto simp: apiFetch_p0_def handleLogout_p0_def notifyLogout_def ui_defs
      punchInTime_stopTimer Let_def split: option.splits reply.splits)

lemma fetchHistory_p0_punchInTime:
  "punchInTime (fetchHistory_p0 reply s) = punchInTime s"
proof -
  obtain res s1 where a: "apiFetch_p0 PunchHistory reply s = (res, s1)"
    by (cases "apiFetch_p0 PunchHistory reply s")
  have "punchInTime s1 = punchInTime s"
    using apiFetch_p0_punchInTime [of PunchHistory reply s] a by simp
  then show ?thesis
    by (auto simp: fetchHistory_p0_def a renderHistory_def split: sum.splits option.splits)
qed

lemma fetchMe_p0_punchInTime:
  "punchInTime (fetchMe_p0 reply s) = punchInTime s"
proof -
  obtain res s1 where a: "apiFetch_p0 Me reply s = (res, s1)"
    by (cases "apiFetch_p0 Me reply s")
  have "punchInTime s1 = punchInTime s"
    using apiFetch_p0_punchInTime [of Me reply s] a by simp
  then show ?thesis
    by (auto simp: fetchMe_p0_def a split: sum.splits option.splits)
qed

lemma syncs_keep_punchInTime_p0:
  assumes "list_all is_sync evs" and "punchInTime s = Some t" and "t \<noteq> 0"
  shows "punchInTime (run Part000 evs s) = Some t"
  using assms
proof (induction evs arbitrary: s)
  case Nil
  then show ?case by simp
next
  case (Cons ev evs)
  have "punchInTime (step Part000 ev s) = Some t"
    using Cons.prems
    by (cases ev)
       (simp_all add: fetchStatus_p0_keeps_punchInTime fetchHistory_p0_punchInTime
         fetchMe_p0_punchInTime)
  then show ?case using Cons by simp
qed

text \<open>
  C1. A status sync that hears "not punched in" while a punch-in time is stored leaves the
  stored time as it is. \<^verbatim>\<open>part_000\<close> does so (the lemma above, and the last conjunct
  here); \<^verbatim>\<open>popup.js\<close> does not: its \<open>fetchStatus\<close> removes the key. The input is a
  logged-in popup punched in 1000 seconds before, and the answer
  \<^verbatim>\<open>200 { isPunchedIn: false }\<close>.
\<close>

theorem C1_status_sync_removes_punchInTime:
  "punchInTime app1 = Some 1699999000000
   \<and> punchInTime (fetchStatus host1 notPunchedIn app1) = None
   \<and> punchInTime (fetchStatus_p0 host1 notPunchedIn app1) = Some 1699999000000"
  by code_simp

section \<open>Session expiry\<close>

text \<open>
  In \<^verbatim>\<open>part_000\<close> a 401 on any authenticated call clears token and user, shows the login
  view, fails the call, and keeps the stored punch-in time.
\<close>

lemma apiFetch_p0_unauthorized:
  assumes "truthyS (token s)" and "status r = 401"
  shows "\<exists>e s1. apiFetch_p0 ep (Reply r) s = (Inl e, s1)
     \<and> token s1 = None \<and> user s1 = None \<and> view s1 = LoginView
     \<and> punchInTime s1 = punchInTime s"
  using assms
  by (cases "token s")
     (auto simp: apiFetch_p0_def handleLogout_p0_def notifyLogout_def ui_defs
      timer_defs Let_def split: option.splits)

text \<open>A later login does not touch the stored punch-in time.\<close>

lemma handleLogin_keeps_punchInTime:
  "punchInTime (handleLogin h emailValue passwordValue remember reply s) = punchInTime s"
  by (auto simp: handleLogin_def ui_defs Let_def split: reply.splits option.splits)

text \<open>
  C2. A 401 on an authenticated call clears the session and shows the login view, and the
  stored punch-in time stays. \<^verbatim>\<open>part_000\<close> does so; in \<^verbatim>\<open>popup.js\<close> and in
  \<^verbatim>\<open>part_001\<close> the forced logout removes the punch-in time with the session. The input
  is a logged-in popup punched in 1000 seconds before, and a 401 on \<^verbatim>\<open>/user/status\<close>.
\<close>

theorem C2_unauthorized_removes_punchInTime:
  "punchInTime app1 = Some 1699999000000
   \<and> punchInTime (snd (apiFetch UserStatus unauthorized app1)) = None
   \<and> punchInTime (snd (apiFetch_p1 UserStatus unauthorized app1)) = None
   \<and> token (snd (apiFetch UserStatus unauthorized app1)) = None
   \<and> view (snd (apiFetch UserStatus unauthorized app1)) = LoginView
   \<and> punchInTime (snd (apiFetch_p0 UserStatus unauthorized app1)) = Some 1699999000000"
  by code_simp

section \<open>A stored punch-in time is never 0\<close>

text \<open>
  \<^verbatim>\<open>!!data.punchInTime\<close> is false for a stored 0. No handler stores 0 while the clock
  is not at the epoch, so in every run from a store without it "a punch-in time is stored"
  and "the stored punch-in time is truthy" are the same.
\<close>

lemma stored_ok_ui [simp]:
  "stored_ok (updatePunchUI h a p s) = stored_ok s"
  "stored_ok (showToast m s) = stored_ok s"
  "stored_ok (renderHistory hist s) = stored_ok s"
  "stored_ok (transitionToView v s) = stored_ok s"
  "stored_ok (setupDashboard u s) = stored_ok s"
  "stored_ok (startTimer h t s) = stored_ok s"
  "stored_ok (stopTimer s) = stored_ok s"
  "stored_ok (s\<lparr>requests := y\<rparr>) = stored_ok s"
  "stored_ok (s\<lparr>history := z\<rparr>) = stored_ok s"
  "stored_ok (s\<lparr>punchBtnText := w\<rparr>) = stored_ok s"
  "stored_ok (s\<lparr>userNameText := n, user := u'\<rparr>) = stored_ok s"
  "stored_ok (s\<lparr>punchInTime := None\<rparr>)"
  "stored_ok (s\<lparr>punchInTime := Some x\<rparr>) = (x \<noteq> 0)"
  by (simp_all add: stored_ok_def ui_defs punchInTime_startTimer punchInTime_stopTimer
      split: option.splits)

lemma stored_ok_handleLogout:
  "stored_ok s \<Longrightarrow> stored_ok (handleLogout s)"
  "stored_ok s \<Longrightarrow> stored_ok (handleLogout_p0 b s)"
  by (auto simp: stored_ok_def handleLogout_def handleLogout_p0_def
      notifyLogout_def ui_defs punchInTime_stopTimer Let_def split: option.splits)

lemma stored_ok_apiFetch:
  "stored_ok s \<Longrightarrow> stored_ok (snd (apiFetch ep reply s))"
  "stored_ok s \<Longrightarrow> stored_ok (snd (apiFetch_p0 ep reply s))"
  by (auto simp: apiFetch_def apiFetch_p0_def stored_ok_handleLogout Let_def
      split: option.splits reply.splits)

lemma stored_ok_fetchStatus:
  assumes "stored_ok s" and "now h \<noteq> 0"
  shows "stored_ok (fetchStatus h reply s)" and "stored_ok (fetchStatus_p0 h reply s)"
proof -
  obtain res s1 where a: "apiFetch UserStatus reply s = (res, s1)"
    by (cases "apiFetch UserStatus reply s")
  have s1: "stored_ok s1" using stored_ok_apiFetch(1) [OF assms(1), of UserStatus reply] a by simp
  show "stored_ok (fetchStatus h reply s)"
    using s1 assms(2)
    by (auto simp: fetchStatus_def a showPunchedIn_def Let_def
        split: sum.splits option.splits js_time.splits)
  obtain res0 s0 where b: "apiFetch_p0 UserStatus reply s = (res0, s0)"
    by (cases "apiFetch_p0 UserStatus reply s")
  have s0: "stored_ok s0" using stored_ok_apiFetch(2) [OF assms(1), of UserStatus reply] b by simp
  show "stored_ok (fetchStatus_p0 h reply s)"
    using s0 assms(2)
    by (auto simp: fetchStatus_p0_def b Let_def
        split: sum.splits option.splits js_time.splits)
qed

lemma stored_ok_fetchHistory:
  assumes "stored_ok s"
  shows "stored_ok (fetchHistory reply s)" and "stored_ok (fetchHistory_p0 reply s)"
proof -
  obtain res s1 where a: "apiFetch PunchHistory reply s = (res, s1)"
    by (cases "apiFetch PunchHistory reply s")
  have s1: "stored_ok s1" using stored_ok_apiFetch(1) [OF assms, of PunchHistory reply] a by simp
  show "stored_ok (fetchHistory reply s)"
    using s1 by (auto simp: fetchHistory_def a split: sum.splits option.splits)
  obtain res0 s0 where b: "apiFetch_p0 PunchHistory reply s = (res0, s0)"
    by (cases "apiFetch_p0 PunchHistory reply s")
  have s0: "stored_ok s0" using stored_ok_apiFetch(2) [OF assms, of PunchHistory reply] b by simp
  show "stored_ok (fetchHistory_p0 reply s)"
    using s0 by (auto simp: fetchHistory_p0_def b split: sum.splits option.splits)
qed

lemma stored_ok_fetchMe:
  assumes "stored_ok s"
  shows "stored_ok (fetchMe reply s)" and "stored_ok (fetchMe_p0 reply s)"
proof -
  obtain res s1 where a: "apiFetch Me reply s = (res, s1)"
    by (cases "apiFetch Me reply s")
  have s1: "stored_ok s1" using stored_ok_apiFetch(1) [OF assms, of Me reply] a by simp
  show "stored_ok (fetchMe reply s)"
    using s1 by (auto simp: fetchMe_def a split: sum.splits option.splits)
  obtain res0 s0 where b: "apiFetch_p0 Me reply s = (res0, s0)"
    by (cases "apiFetch_p0 Me reply s")
  have s0: "stored_ok s0" using stored_ok_apiFetch(2) [OF assms, of Me reply] b by simp
  show "stored_ok (fetchMe_p0 reply s)"
    using s0 by (auto simp: fetchMe_p0_def b split: sum.splits option.splits)
qed

lemma stored_ok_punchRequest:
  assumes "stored_ok s" and "now h \<noteq> 0"
  shows "stored_ok (punchRequest h ty w pr hr s)"
    and "stored_ok (punchRequest_p0 h ty w pr hr s)"
proof -
  obtain res s1 where a: "apiFetch (PunchAction ty (now h div 1000)) pr s = (res, s1)"
    by (cases "apiFetch (PunchAction ty (now h div 1000)) pr s")
  have s1: "stored_ok s1"
    using stored_ok_apiFetch(1) [OF assms(1), of "PunchAction ty (now h div 1000)" pr] a by simp
  show "stored_ok (punchRequest h ty w pr hr s)"
    using s1 assms(2)
    by (auto simp: punchRequest_def a stored_ok_fetchHistory Let_def
        split: sum.splits option.splits)
  obtain res0 s0 where b: "apiFetch_p0 (PunchAction ty (now h div 1000)) pr s = (res0, s0)"
    by (cases "apiFetch_p0 (PunchAction ty (now h div 1000)) pr s")
  have s0: "stored_ok s0"
    using stored_ok_apiFetch(2) [OF assms(1), of "PunchAction ty (now h div 1000)" pr] b by simp
  show "stored_ok (punchRequest_p0 h ty w pr hr s)"
    using s0 assms(2)
    by (auto simp: punchRequest_p0_def b stored_ok_fetchHistory Let_def
        split: sum.splits option.splits)
qed

lemma stored_ok_handlePunch:
  "stored_ok s \<Longrightarrow> now h \<noteq> 0 \<Longrightarrow> stored_ok (handlePunch h pr hr s)"
  "stored_ok s \<Longrightarrow> now h \<noteq> 0 \<Longrightarrow> stored_ok (handlePunch_p0 h pr hr s)"
  by (auto simp: handlePunch_def handlePunch_p0_def stored_ok_punchRequest stored_ok_handleLogout
      Let_def split: option.splits simp del: truthyN.simps truthyS.simps)

lemma stored_ok_handleLogin:
  "stored_ok s \<Longrightarrow> stored_ok (handleLogin h e p rm reply s)"
  by (auto simp: handleLogin_def showError_def stored_ok_def ui_defs Let_def
      split: reply.splits option.splits)

lemma stored_ok_step: "stored_ok s \<Longrightarrow> clock_ok ev \<Longrightarrow> stored_ok (step v ev s)"
  by (cases "(v, ev, s)" rule: step.cases)
     (simp_all add: stored_ok_handleLogin stored_ok_handleLogout stored_ok_handlePunch
       stored_ok_fetchStatus stored_ok_fetchHistory stored_ok_fetchMe)

lemma stored_ok_run:
  "stored_ok s \<Longrightarrow> list_all clock_ok evs \<Longrightarrow> stored_ok (run v evs s)"
  by (induction evs arbitrary: s) (simp_all add: stored_ok_step)

lemma stored_is_truthy:
  "stored_ok s \<Longrightarrow> truthyN (punchInTime s) = (punchInTime s \<noteq> None)"
  by (cases "punchInTime s") (simp_all add: stored_ok_def)

section \<open>Client-side refusals\<close>

text \<open>
  C3 as stated fails where an earlier guard of \<open>handlePunch\<close> answers: offline, the toast
  is the offline message; without a token, \<open>handlePunch\<close> logs out, which changes the
  store.
\<close>

theorem C3_guards_counterexample:
  "punchInTime app1 = Some 1699999000000
   \<and> now host1 - 1699999000000 < 7200000
   \<and> minStayMessage (now host1) 1699999000000 = ''Min. stay required: 104 mins left''
   \<and> toasts (handlePunch (host1\<lparr>onLine := False\<rparr>) punchOk history21Reply app1)
       = [''Offline: Check connection'']
   \<and> toasts (handlePunch_p0 (host1\<lparr>onLine := False\<rparr>) punchOk history21Reply app1)
       = [''Offline: Check connection'']
   \<and> punchInTime (handlePunch host1 punchOk history21Reply (app1\<lparr>token := None\<rparr>)) = None
   \<and> user (handlePunch_p0 host1 punchOk history21Reply (app1\<lparr>token := None\<rparr>)) = None"
proof -
  have a: "punchInTime app1 = Some 1699999000000" by code_simp
  have m: "minStayMessage 1700000000000 1699999000000 = ''Min. stay required: 104 mins left''"
    by code_simp
  have b: "toasts (handlePunch (host1\<lparr>onLine := False\<rparr>) punchOk history21Reply app1)
       = [''Offline: Check connection'']" by code_simp
  have c: "toasts (handlePunch_p0 (host1\<lparr>onLine := False\<rparr>) punchOk history21Reply app1)
       = [''Offline: Check connection'']" by code_simp
  have d: "punchInTime (handlePunch host1 punchOk history21Reply (app1\<lparr>token := None\<rparr>))
       = None" by code_simp
  have e: "user (handlePunch_p0 host1 punchOk history21Reply (app1\<lparr>token := None\<rparr>)) = None"
    by code_simp
  show ?thesis using a m b c d e by (simp add: host1_simps)
qed

text \<open>
  C3, amended. When the browser is online and a token is stored, a punch attempt made
  while a punch-in time is stored and less than 7,200,000 ms have passed since then is
  refused: the popup after \<open>handlePunch\<close> is the popup before it with one more toast, so
  no request was sent and nothing stored has changed; the toast reports
  \<open>ceil((7200000 - (now - punchInTime)) / 60000)\<close> minutes. Both \<^verbatim>\<open>popup.js\<close> and
  \<^verbatim>\<open>part_000\<close>. A punch-in time is stored when the key holds a number other than 0,
  which is what \<^verbatim>\<open>!!data.punchInTime\<close> tests; no handler stores 0
  (\<open>stored_ok_run\<close>).
\<close>

theorem C3_min_stay_refusal:
  assumes "onLine h" and "truthyS (token s)"
    and "punchInTime s = Some pit" and "pit \<noteq> 0" and "now h - pit < 7200000"
  shows "handlePunch h punchReply historyReply s =
           s\<lparr>toasts := toasts s @
             [''Min. stay required: ''
                @ String \<lceil>real_of_int (7200000 - (now h - pit)) / 60000\<rceil> @ '' mins left'']\<rparr>
       \<and> handlePunch_p0 h punchReply historyReply s =
           s\<lparr>toasts := toasts s @
             [''Min. stay required: ''
                @ String \<lceil>real_of_int (7200000 - (now h - pit)) / 60000\<rceil> @ '' mins left'']\<rparr>"
proof -
  have c: "ceil_div (7200000 - (now h - pit)) 60000
             = \<lceil>real_of_int (7200000 - (now h - pit)) / 60000\<rceil>"
    using ceil_div_ceiling [of 60000 "7200000 - (now h - pit)"] by simp
  show ?thesis
    using assms
    by (simp add: handlePunch_def handlePunch_p0_def showToast_def minStayMessage_def
        PUNCH_DELAY_MS_def c Let_def)
qed

theorem C3_min_stay_refusal_witness:
  "onLine host1 \<and> truthyS (token app1) \<and> punchInTime app1 = Some 1699999000000
   \<and> now host1 - 1699999000000 < 7200000
   \<and> handlePunch host1 punchOk history21Reply app1 =
       app1\<lparr>toasts := [''Min. stay required: 104 mins left'']\<rparr>
   \<and> requests (handlePunch host1 punchOk history21Reply app1) = []"
proof -
  have h1: "onLine host1" by (simp add: host1_simps)
  have h2: "truthyS (token app1)" by code_simp
  have h3: "punchInTime app1 = Some 1699999000000" by code_simp
  have h4: "(1699999000000::int) \<noteq> 0" by simp
  have h5: "now host1 - 1699999000000 < 7200000" by (simp add: host1_simps)
  have n: "now host1 = 1700000000000" by (simp add: host1_simps)
  have m: "String 104 = ''104''" by code_simp
  have t: "toasts app1 = []" by code_simp
  have r: "requests app1 = []" by code_simp
  from C3_min_stay_refusal [OF h1 h2 h3 h4 h5, of punchOk history21Reply]
  have "handlePunch host1 punchOk history21Reply app1 =
       app1\<lparr>toasts := [''Min. stay required: 104 mins left'']\<rparr>"
    by (simp add: n m t)
  then show ?thesis using h1 h2 h3 h5 r by simp
qed




section \<open>Adopting the server's punch-in time\<close>

text \<open>The AM/PM rule on the hours that the regular expression found.\<close>

lemma adjustHours_rules:
  "adjustHours None hours = hours"
  "toUpperCase md = ''PM'' \<Longrightarrow> hours < 12 \<Longrightarrow> adjustHours (Some md) hours = hours + 12"
  "toUpperCase md = ''PM'' \<Longrightarrow> 12 \<le> hours \<Longrightarrow> adjustHours (Some md) hours = hours"
  "toUpperCase md = ''AM'' \<Longrightarrow> adjustHours (Some md) 12 = 0"
  "toUpperCase md = ''AM'' \<Longrightarrow> hours \<noteq> 12 \<Longrightarrow> adjustHours (Some md) hours = hours"
  by (simp_all add: adjustHours_def Let_def)

lemma matchTime_examples:
  "matchTime ''10:16:29 AM'' = Some (10, 16, 29, Some ''AM'')"
  "matchTime ''9:05:07pm'' = Some (9, 5, 7, Some ''pm'')"
  "matchTime ''12:00:00 AM'' = Some (12, 0, 0, Some ''AM'')"
  "matchTime ''23:59:59'' = Some (23, 59, 59, None)"
  "matchTime ''2023-11-10T10:16:29Z'' = Some (10, 16, 29, None)"
  "matchTime ''10:16'' = None"
  by code_simp+

text \<open>
  What a sync stores when the server says "punched in", sends the time as a non-empty
  string and no punch-in time is stored: the parsed time, or the current time when the
  parse gives nothing. \<^verbatim>\<open>popup.js\<close> parses only by the regular expression;
  \<^verbatim>\<open>part_000\<close> hands a string without a colon to \<^verbatim>\<open>Date\<close>.
\<close>

lemma fetchStatus_adopts:
  assumes "truthyS (token s)" and "\<not> truthyN (punchInTime s)"
    and "json r = Some result" and "response_ok r" and "isPunchedIn result"
    and "serverPunchInTime result = TimeStr str" and "str \<noteq> []"
  shows "punchInTime (fetchStatus h (Reply r) s) =
           Some (case (if CHR '':'' \<in> set str then parseTimeOfDay h str else None) of
                   None \<Rightarrow> now h
                 | Some p \<Rightarrow> if p \<noteq> 0 then p else now h)"
    and "punchInTime (fetchStatus_p0 h (Reply r) s) =
           Some (case (if CHR '':'' \<in> set str then parseTimeOfDay h str else dateParse h str) of
                   None \<Rightarrow> now h
                 | Some p \<Rightarrow> if p \<noteq> 0 then p else now h)"
proof -
  have ok: "status r \<noteq> 401" using assms(4) by (simp add: response_ok_def)
  obtain tok where tok: "token s = Some tok" "tok \<noteq> []"
    using assms(1) by (cases "token s") auto
  show "punchInTime (fetchStatus h (Reply r) s) =
           Some (case (if CHR '':'' \<in> set str then parseTimeOfDay h str else None) of
                   None \<Rightarrow> now h
                 | Some p \<Rightarrow> if p \<noteq> 0 then p else now h)"
    using assms(2-7) ok tok
    by (auto simp: fetchStatus_def apiFetch_def showPunchedIn_def ui_defs
        punchInTime_startTimer Let_def split: option.splits)
  show "punchInTime (fetchStatus_p0 h (Reply r) s) =
           Some (case (if CHR '':'' \<in> set str then parseTimeOfDay h str else dateParse h str) of
                   None \<Rightarrow> now h
                 | Some p \<Rightarrow> if p \<noteq> 0 then p else now h)"
    using assms(2-7) ok tok
    by (auto simp: fetchStatus_p0_def apiFetch_p0_def ui_defs
        punchInTime_startTimer Let_def split: option.splits)
qed

text \<open>When the server says "punched in" and sends no time, and none is stored,
  \<^verbatim>\<open>popup.js\<close> stores nothing and leaves the view as it was; \<^verbatim>\<open>part_000\<close> stores the
  current time.\<close>

lemma fetchStatus_without_server_time:
  "punchInTime (fetchStatus host1
      (Reply (Response 200 ''OK'' (Some \<lparr>isPunchedIn = True, serverPunchInTime = TimeAbsent\<rparr>)))
      app2) = None"
  "statusText (fetchStatus host1
      (Reply (Response 200 ''OK'' (Some \<lparr>isPunchedIn = True, serverPunchInTime = TimeAbsent\<rparr>)))
      app2) = ''Offline''"
  "punchInTime (fetchStatus_p0 host1
      (Reply (Response 200 ''OK'' (Some \<lparr>isPunchedIn = True, serverPunchInTime = TimeAbsent\<rparr>)))
      app2) = Some 1700000000000"
  by code_simp+

text \<open>
  C5. With no punch-in time stored, the sync parses the server's time string, accepting
  an ISO datetime or a time of day, and stores the parsed value. Neither variant reads
  an ISO datetime as one: the string holds a colon, so the regular expression takes its
  time of day and \<^verbatim>\<open>setHours\<close> puts it on the current date. On 14 November the server's
  \<^verbatim>\<open>2023-11-10T10:16:29Z\<close>, which \<^verbatim>\<open>Date\<close> parses to 1699611389000, is stored as
  1699956989000, 10:16:29 of 14 November.
\<close>

theorem C5_iso_datetime_read_as_time_of_day:
  "dateParse host1 ''2023-11-10T10:16:29Z'' = Some 1699611389000
   \<and> punchInTime app2 = None
   \<and> punchInTime (fetchStatus host1 punchedInIso app2) = Some 1699956989000
   \<and> punchInTime (fetchStatus_p0 host1 punchedInIso app2) = Some 1699956989000"
  by code_simp

section \<open>History\<close>

text \<open>\<open>logActivity\<close> keeps the last 20 entries and shows the last 5 of them, newest
  first; \<open>renderHistory\<close> shows the last 5 entries of any list, newest first.\<close>

lemma logActivity_bounded:
  "\<exists>stored. history (logActivity h ty s) = Some stored \<and> length stored \<le> 20
     \<and> stored = slice_last 20
         ((case history s of None \<Rightarrow> [] | Some xs \<Rightarrow> xs)
            @ [\<lparr>entry_type = ty, entry_timestamp = now h\<rparr>])
     \<and> historyList (logActivity h ty s) = rev (slice_last 5 stored)"
  by (simp add: logActivity_def renderHistory_def Let_def slice_last_length)
     (simp add: slice_last_def)

lemma renderHistory_shows:
  "historyList (renderHistory (Some xs) s) = rev (slice_last 5 xs)
   \<and> length (historyList (renderHistory (Some xs) s)) \<le> 5"
  by (simp add: renderHistory_def slice_last_length) (simp add: slice_last_def)

lemma fetchHistory_shows:
  assumes "truthyS (token s)" and "json r = Some (Some hist)" and "response_ok r"
  shows "historyList (fetchHistory (Reply r) s) = rev (slice_last 5 hist)
     \<and> history (fetchHistory (Reply r) s) = Some hist"
proof -
  have ok: "status r \<noteq> 401" using assms(3) by (simp add: response_ok_def)
  obtain tok where tok: "token s = Some tok" "tok \<noteq> []"
    using assms(1) by (cases "token s") auto
  show ?thesis
    using assms(2,3) ok tok
    by (simp add: fetchHistory_def apiFetch_def renderHistory_def Let_def)
       (simp add: slice_last_def)
qed

text \<open>
  C6. After every write of the stored history the list holds at most 20 entries, and the
  rendered list shows the 5 newest, newest first. The rendering is so, and
  \<open>logActivity\<close> keeps the bound (the lemmas above); \<open>fetchHistory\<close> stores the
  server's list as it comes. The input is a \<^verbatim>\<open>/punch/history\<close> answer of 21 entries.
\<close>

theorem C6_fetchHistory_stores_unbounded:
  "length history21 = 21
   \<and> history (fetchHistory history21Reply app2) = Some history21
   \<and> history (fetchHistory_p0 history21Reply app2) = Some history21
   \<and> length (historyList (fetchHistory history21Reply app2)) = 5"
  by code_simp

section \<open>The display timer\<close>

lemma timer_inv_startTimer: "timer_inv s \<Longrightarrow> timer_inv (startTimer h t s)"
  by (auto simp: timer_inv_def timer_defs Let_def split: option.splits)

lemma timer_inv_stopTimer: "timer_inv s \<Longrightarrow> timer_inv (stopTimer s)"
  by (auto simp: timer_inv_def timer_defs Let_def split: option.splits)

lemma fresh_timer_inv: "fresh s \<Longrightarrow> timer_inv s"
  by (simp add: fresh_def timer_inv_def)

lemma timer_inv_at_most_one: "timer_inv s \<Longrightarrow> length (intervals s) \<le> 1"
  by (auto simp: timer_inv_def split: option.splits)

lemma startTimer_cancels:
  "timer_inv s \<Longrightarrow> set (intervals s) \<inter> set (intervals (startTimer h t s)) = {}"
  by (auto simp: timer_inv_def timer_defs Let_def split: option.splits)

lemma startTimer_one_live:
  "timer_inv s \<Longrightarrow> intervals (startTimer h t s) = [nextIntervalId s]
     \<and> timerInterval (startTimer h t s) = Some (nextIntervalId s)"
  by (auto simp: timer_inv_def timer_defs Let_def split: option.splits)

text \<open>The handlers reach the timer through \<open>startTimer\<close> and \<open>stopTimer\<close> only, so each
  of them keeps the handle invariant.\<close>

lemma timer_inv_ui [simp]:
  "timer_inv (updatePunchUI h a p s) = timer_inv s"
  "timer_inv (showToast m s) = timer_inv s"
  "timer_inv (renderHistory hist s) = timer_inv s"
  "timer_inv (transitionToView v s) = timer_inv s"
  "timer_inv (setupDashboard u s) = timer_inv s"
  "timer_inv (s\<lparr>punchInTime := x\<rparr>) = timer_inv s"
  "timer_inv (s\<lparr>requests := y\<rparr>) = timer_inv s"
  "timer_inv (s\<lparr>history := z\<rparr>) = timer_inv s"
  "timer_inv (s\<lparr>punchBtnText := w\<rparr>) = timer_inv s"
  "timer_inv (s\<lparr>userNameText := n, user := u'\<rparr>) = timer_inv s"
  by (simp_all add: timer_inv_def ui_defs Let_def split: option.splits)

lemma timer_inv_handleLogout:
  "timer_inv s \<Longrightarrow> timer_inv (handleLogout s)"
  "timer_inv s \<Longrightarrow> timer_inv (handleLogout_p0 b s)"
  "timer_inv s \<Longrightarrow> timer_inv (handleLogout_p1 s)"
  by (auto simp: timer_inv_def handleLogout_def handleLogout_p0_def handleLogout_p1_def
      notifyLogout_def ui_defs timer_defs Let_def split: option.splits)

lemma timer_inv_apiFetch:
  "timer_inv s \<Longrightarrow> timer_inv (snd (apiFetch ep reply s))"
  "timer_inv s \<Longrightarrow> timer_inv (snd (apiFetch_p0 ep reply s))"
  "timer_inv s \<Longrightarrow> timer_inv (snd (apiFetch_p1 ep reply s))"
  by (auto simp: apiFetch_def apiFetch_p0_def apiFetch_p1_def timer_inv_handleLogout Let_def
      split: option.splits reply.splits)

lemma timer_inv_fetchStatus:
  assumes "timer_inv s"
  shows "timer_inv (fetchStatus h reply s)" and "timer_inv (fetchStatus_p0 h reply s)"
proof -
  obtain res s1 where a: "apiFetch UserStatus reply s = (res, s1)"
    by (cases "apiFetch UserStatus reply s")
  have s1: "timer_inv s1" using timer_inv_apiFetch(1) [OF assms, of UserStatus reply] a by simp
  show "timer_inv (fetchStatus h reply s)"
    using s1
    by (auto simp: fetchStatus_def a showPunchedIn_def timer_inv_startTimer timer_inv_stopTimer
        Let_def split: sum.splits option.splits js_time.splits)
  obtain res0 s0 where b: "apiFetch_p0 UserStatus reply s = (res0, s0)"
    by (cases "apiFetch_p0 UserStatus reply s")
  have s0: "timer_inv s0" using timer_inv_apiFetch(2) [OF assms, of UserStatus reply] b by simp
  show "timer_inv (fetchStatus_p0 h reply s)"
    using s0
    by (auto simp: fetchStatus_p0_def b timer_inv_startTimer timer_inv_stopTimer
        Let_def split: sum.splits option.splits js_time.splits)
qed

lemma timer_inv_fetchHistory:
  assumes "timer_inv s"
  shows "timer_inv (fetchHistory reply s)" and "timer_inv (fetchHistory_p0 reply s)"
proof -
  obtain res s1 where a: "apiFetch PunchHistory reply s = (res, s1)"
    by (cases "apiFetch PunchHistory reply s")
  have s1: "timer_inv s1" using timer_inv_apiFetch(1) [OF assms, of PunchHistory reply] a by simp
  show "timer_inv (fetchHistory reply s)"
    using s1 by (auto simp: fetchHistory_def a split: sum.splits option.splits)
  obtain res0 s0 where b: "apiFetch_p0 PunchHistory reply s = (res0, s0)"
    by (cases "apiFetch_p0 PunchHistory reply s")
  have s0: "timer_inv s0" using timer_inv_apiFetch(2) [OF assms, of PunchHistory reply] b by simp
  show "timer_inv (fetchHistory_p0 reply s)"
    using s0 by (auto simp: fetchHistory_p0_def b split: sum.splits option.splits)
qed

lemma timer_inv_fetchMe:
  assumes "timer_inv s"
  shows "timer_inv (fetchMe reply s)" and "timer_inv (fetchMe_p0 reply s)"
proof -
  obtain res s1 where a: "apiFetch Me reply s = (res, s1)"
    by (cases "apiFetch Me reply s")
  have s1: "timer_inv s1" using timer_inv_apiFetch(1) [OF assms, of Me reply] a by simp
  show "timer_inv (fetchMe reply s)"
    using s1 by (auto simp: fetchMe_def a split: sum.splits option.splits)
  obtain res0 s0 where b: "apiFetch_p0 Me reply s = (res0, s0)"
    by (cases "apiFetch_p0 Me reply s")
  have s0: "timer_inv s0" using timer_inv_apiFetch(2) [OF assms, of Me reply] b by simp
  show "timer_inv (fetchMe_p0 reply s)"
    using s0 by (auto simp: fetchMe_p0_def b split: sum.splits option.splits)
qed

lemma timer_inv_punchRequest:
  assumes "timer_inv s"
  shows "timer_inv (punchRequest h ty w pr hr s)"
    and "timer_inv (punchRequest_p0 h ty w pr hr s)"
proof -
  obtain res s1 where a: "apiFetch (PunchAction ty (now h div 1000)) pr s = (res, s1)"
    by (cases "apiFetch (PunchAction ty (now h div 1000)) pr s")
  have s1: "timer_inv s1"
    using timer_inv_apiFetch(1) [OF assms, of "PunchAction ty (now h div 1000)" pr] a by simp
  show "timer_inv (punchRequest h ty w pr hr s)"
    using s1
    by (auto simp: punchRequest_def a timer_inv_fetchHistory timer_inv_startTimer
        timer_inv_stopTimer Let_def split: sum.splits option.splits)
  obtain res0 s0 where b: "apiFetch_p0 (PunchAction ty (now h div 1000)) pr s = (res0, s0)"
    by (cases "apiFetch_p0 (PunchAction ty (now h div 1000)) pr s")
  have s0: "timer_inv s0"
    using timer_inv_apiFetch(2) [OF assms, of "PunchAction ty (now h div 1000)" pr] b by simp
  show "timer_inv (punchRequest_p0 h ty w pr hr s)"
    using s0
    by (auto simp: punchRequest_p0_def b timer_inv_fetchHistory timer_inv_startTimer
        timer_inv_stopTimer Let_def split: sum.splits option.splits)
qed

lemma timer_inv_handlePunch:
  "timer_inv s \<Longrightarrow> timer_inv (handlePunch h pr hr s)"
  "timer_inv s \<Longrightarrow> timer_inv (handlePunch_p0 h pr hr s)"
  by (auto simp: handlePunch_def handlePunch_p0_def timer_inv_punchRequest timer_inv_handleLogout
      Let_def split: option.splits simp del: truthyN.simps truthyS.simps)

lemma timer_inv_handleLogin:
  "timer_inv s \<Longrightarrow> timer_inv (handleLogin h e p rm reply s)"
  by (auto simp: handleLogin_def showError_def timer_inv_def ui_defs Let_def
      split: reply.splits option.splits)

lemma timer_inv_step: "timer_inv s \<Longrightarrow> timer_inv (step v ev s)"
  by (cases "(v, ev, s)" rule: step.cases)
     (simp_all add: timer_inv_handleLogin timer_inv_handleLogout timer_inv_handlePunch
       timer_inv_fetchStatus timer_inv_fetchHistory timer_inv_fetchMe timer_inv_startTimer
       timer_inv_stopTimer)

lemma timer_inv_run: "timer_inv s \<Longrightarrow> timer_inv (run v evs s)"
  by (induction evs arbitrary: s) (simp_all add: timer_inv_step)

text \<open>
  C7. From the loading of the popup on, whatever the handlers, syncs and calls of
  \<open>startTimer\<close> and \<open>stopTimer\<close> that have run, at most one interval is live; a call
  of \<open>startTimer\<close> leaves none of the intervals live that were live before it; and after
  two calls of \<open>startTimer\<close> in succession exactly one interval is live, the one whose
  handle \<open>timerInterval\<close> holds. In \<^verbatim>\<open>popup.js\<close> and in \<^verbatim>\<open>part_000\<close>;
  \<^verbatim>\<open>part_001\<close> has the same \<open>startTimer\<close> and \<open>stopTimer\<close>.
\<close>

theorem C7_one_live_timer:
  assumes "fresh s0"
  shows "length (intervals (run v evs s0)) \<le> 1
     \<and> set (intervals (run v evs s0))
          \<inter> set (intervals (startTimer h t (run v evs s0))) = {}
     \<and> length (intervals (startTimer h2 t2 (startTimer h1 t1 (run v evs s0)))) = 1
     \<and> map Some (intervals (startTimer h2 t2 (startTimer h1 t1 (run v evs s0))))
         = [timerInterval (startTimer h2 t2 (startTimer h1 t1 (run v evs s0)))]"
proof -
  have inv: "timer_inv (run v evs s0)"
    using assms by (simp add: fresh_timer_inv timer_inv_run)
  have inv1: "timer_inv (startTimer h1 t1 (run v evs s0))"
    using inv by (rule timer_inv_startTimer)
  show ?thesis
    using timer_inv_at_most_one [OF inv] startTimer_cancels [OF inv]
      startTimer_one_live [OF inv1, of h2 t2]
    by simp
qed

theorem C7_one_live_timer_witness:
  "fresh app0
   \<and> length (intervals (run Popup [EvStart host1 5, EvStop, EvStart host1 6] app0)) \<le> 1
   \<and> length (intervals (startTimer host1 8 (startTimer host1 7
        (run Popup [EvStart host1 5, EvStop, EvStart host1 6] app0)))) = 1"
proof -
  have f: "fresh app0" by (simp add: fresh_def app0_def)
  from C7_one_live_timer
    [OF f, of Popup "[EvStart host1 5, EvStop, EvStart host1 6]" host1 0 host1 8 host1 7]
  show ?thesis using f by simp
qed

section \<open>What a login stores\<close>

text \<open>
  C8. A login succeeds when the answer is a 2xx with a token in \<^verbatim>\<open>result.token\<close> or
  \<^verbatim>\<open>result.data.token\<close>. When it succeeds and the answer names the user neither in
  \<^verbatim>\<open>result.user.name\<close> nor in \<^verbatim>\<open>result.data.user.name\<close> (absent or empty), the user
  record that is stored has as its name the part of the email before the first \<^verbatim>\<open>@\<close>,
  the email being the trimmed value of the email field.
\<close>

theorem C8_login_default_name:
  assumes "trim emailValue \<noteq> []" and "passwordValue \<noteq> []"
    and "json r = Some result" and "response_ok r"
    and "truthyS (l_token result) \<or> truthyS (l_data_token result)"
    and "\<not> truthyS (l_user_name result)" and "\<not> truthyS (l_data_user_name result)"
  shows "user (handleLogin h emailValue passwordValue remember (Reply r) s) =
           Some \<lparr>user_name = Some (takeWhile (\<lambda>c. c \<noteq> CHR ''@'') (trim emailValue)),
                 user_email = Some (trim emailValue)\<rparr>
       \<and> token (handleLogin h emailValue passwordValue remember (Reply r) s)
           = orS (l_token result) (l_data_token result)"
  using assms
  by (auto simp add: handleLogin_def ui_defs orS_def beforeAt_def Let_def)

theorem C8_login_default_name_witness:
  "trim '' ann@corp.example '' \<noteq> [] \<and> ''pw'' \<noteq> ([] :: string)
   \<and> user (handleLogin host1 '' ann@corp.example '' ''pw'' True loginOk app0) =
       Some \<lparr>user_name = Some ''ann'', user_email = Some ''ann@corp.example''\<rparr>
   \<and> token (handleLogin host1 '' ann@corp.example '' ''pw'' True loginOk app0) = Some ''T2''"
proof -
  define result :: login_result where
    "result = \<lparr>l_token = Some ''T2'', l_data_token = None, l_user_name = None,
               l_data_user_name = None, l_message = None\<rparr>"
  define r where "r = Response 200 ''OK'' (Some result)"
  have l: "loginOk = Reply r" by (simp add: loginOk_def r_def result_def)
  have e: "trim '' ann@corp.example '' = ''ann@corp.example''" by code_simp
  have h1: "trim '' ann@corp.example '' \<noteq> []" by (simp add: e)
  have h2: "''pw'' \<noteq> ([] :: string)" by simp
  have h3: "json r = Some result" by (simp add: r_def)
  have h4: "response_ok r" by (simp add: r_def response_ok_def)
  have h5: "truthyS (l_token result) \<or> truthyS (l_data_token result)" by (simp add: result_def)
  have h6: "\<not> truthyS (l_user_name result)" by (simp add: result_def)
  have h7: "\<not> truthyS (l_data_user_name result)" by (simp add: result_def)
  from C8_login_default_name [OF h1 h2 h3 h4 h5 h6 h7, of host1 True app0]
  show ?thesis using h1 by (simp add: l e orS_def result_def)
qed

text \<open>
  C9. When a login succeeds with the remember-me box not checked, no saved credentials
  are in the store afterwards, whatever was saved before.
\<close>

theorem C9_login_forgets_savedCreds:
  assumes "trim emailValue \<noteq> []" and "passwordValue \<noteq> []"
    and "json r = Some result" and "response_ok r"
    and "truthyS (l_token result) \<or> truthyS (l_data_token result)"
  shows "savedCreds (handleLogin h emailValue passwordValue False (Reply r) s) = None"
  using assms
  by (auto simp add: handleLogin_def ui_defs orS_def Let_def)

theorem C9_login_forgets_savedCreds_witness:
  "savedCreds app5 = Some \<lparr>creds_email = ''old@corp.example'', creds_password = ''old''\<rparr>
   \<and> trim ''ann@corp.example'' \<noteq> [] \<and> ''pw'' \<noteq> ([] :: string)
   \<and> savedCreds (handleLogin host1 ''ann@corp.example'' ''pw'' False loginOk app5) = None"
proof -
  define result :: login_result where
    "result = \<lparr>l_token = Some ''T2'', l_data_token = None, l_user_name = None,
               l_data_user_name = None, l_message = None\<rparr>"
  define r where "r = Response 200 ''OK'' (Some result)"
  have l: "loginOk = Reply r" by (simp add: loginOk_def r_def result_def)
  have a: "savedCreds app5 = Some \<lparr>creds_email = ''old@corp.example'', creds_password = ''old''\<rparr>"
    by code_simp
  have h1: "trim ''ann@corp.example'' \<noteq> []" by code_simp
  have h2: "''pw'' \<noteq> ([] :: string)" by simp
  have h3: "json r = Some result" by (simp add: r_def)
  have h4: "response_ok r" by (simp add: r_def response_ok_def)
  have h5: "truthyS (l_token result) \<or> truthyS (l_data_token result)" by (simp add: result_def)
  from C9_login_forgets_savedCreds [OF h1 h2 h3 h4 h5, of host1 app5]
  show ?thesis using a h1 by (simp add: l)
qed

section \<open>The direction of a punch\<close>







text \<open>Both directions are sent: a punch-in from a popup that is not punched in, a
  punch-out from one that has been punched in for more than two hours.\<close>

lemma punch_directions_sent:
  "requests (handlePunch host1 punchOk history21Reply app2)
     = [Api ''T1'' (PunchAction ''in'' 1700000000), Api ''T1'' PunchHistory]"
  "requests (handlePunch host1 punchOk history21Reply (app2\<lparr>punchInTime := Some 1699990000000\<rparr>))
     = [Api ''T1'' (PunchAction ''out'' 1700000000), Api ''T1'' PunchHistory]"
  by (simp_all add: handlePunch_def punchRequest_def fetchHistory_def apiFetch_def host1_def
      utc_host_def app2_def app0_def punchOk_def history21Reply_def userA_def response_ok_def
      isSuccess_def hasError_def hasPunchedOutToday_def ui_defs timer_defs orElse_def
      PUNCH_DELAY_MS_def Let_def)



end
